theory Spec2Isabelle
  imports Main "HOL-Library.Sublist"
begin

section \<open>The contract state checker (scripts/check-contract-state.py)\<close>

text \<open>
  The script reads the pause flags of two pool contracts and the state of a yield
  aggregator over JSON-RPC and prints a readiness summary. The model threads an explicit
  state through the code: the lines written to the two output streams and the log of the
  contract reads that were issued. The RPC endpoint is a parameter: what the connection
  attempt gives, what the block number query gives, and what each contract function
  gives at each address (an error message, the \<open>str(e)\<close> of the exception raised,
  or the decoded value).

  Python's \<open>str\<close> is modelled by its UTF-8 encoding: a \<open>string\<close> is the list
  of bytes that \<open>print\<close> writes. The non-ASCII markers of the source are spelled out
  byte by byte below.
\<close>

subsection \<open>Configuration (lines 17-25)\<close>

definition MEZO_TESTNET_RPC :: string where
  "MEZO_TESTNET_RPC = ''https://testnet-rpc.mezo.org''"

definition CHAIN_ID :: int where
  "CHAIN_ID = 31611"

definition INDIVIDUAL_POOL :: string where
  "INDIVIDUAL_POOL = ''0xC2c7c8E1325Ec049302F225c8A0151E561F446Ed''"

definition COOPERATIVE_POOL :: string where
  "COOPERATIVE_POOL = ''0xDDe8c75271E454075BD2f348213A66B142BB8906''"

definition YIELD_AGGREGATOR :: string where
  "YIELD_AGGREGATOR = ''0xfB3265402f388d72a9b63353b4a7BeeC4fD9De4c''"

definition MEZO_INTEGRATION :: string where
  "MEZO_INTEGRATION = ''0x9AC6249d2f2E3cbAAF34E114EdF1Cb7519AF04C2''"

subsection \<open>The markers of the report, as UTF-8\<close>

definition cross_mark :: string where \<comment> \<open>U+274C\<close>
  "cross_mark = [CHR 0xE2, CHR 0x9D, CHR 0x8C]"

definition magnifier :: string where \<comment> \<open>U+1F50D\<close>
  "magnifier = [CHR 0xF0, CHR 0x9F, CHR 0x94, CHR 0x8D]"

definition check_mark :: string where \<comment> \<open>U+2713\<close>
  "check_mark = [CHR 0xE2, CHR 0x9C, CHR 0x93]"

definition question_mark :: string where \<comment> \<open>U+2753\<close>
  "question_mark = [CHR 0xE2, CHR 0x9D, CHR 0x93]"

definition red_circle :: string where \<comment> \<open>U+1F534\<close>
  "red_circle = [CHR 0xF0, CHR 0x9F, CHR 0x94, CHR 0xB4]"

definition green_circle :: string where \<comment> \<open>U+1F7E2\<close>
  "green_circle = [CHR 0xF0, CHR 0x9F, CHR 0x9F, CHR 0xA2]"

definition warning_sign :: string where \<comment> \<open>U+26A0 U+FE0F\<close>
  "warning_sign = [CHR 0xE2, CHR 0x9A, CHR 0xA0, CHR 0xEF, CHR 0xB8, CHR 0x8F]"

definition green_check :: string where \<comment> \<open>U+2705\<close>
  "green_check = [CHR 0xE2, CHR 0x9C, CHR 0x85]"

subsection \<open>The RPC endpoint and the state of a run\<close>

text \<open>
  \<open>Web3(Web3.HTTPProvider(url))\<close> followed by \<open>is_connected()\<close> has three
  outcomes: the endpoint answers, \<open>is_connected()\<close> is false, or an exception is
  raised while the client is built.
\<close>

datatype connection = Connected | Not_Connected | Connection_Error string

text \<open>
  The view functions of the ABIs (lines 28-53) are typed as the ABI decodes them: a
  call gives \<open>Inl\<close> the message of the exception it raises, or \<open>Inr\<close> the value.
  Each function is read at most once per address in a run, so a function of the address
  is as general as a node whose answers change over time. The failures are the
  exceptions that \<open>except Exception\<close> catches.
\<close>

record rpc =
  connection :: connection
  block_number :: "string + int"
  paused_call :: "string \<Rightarrow> string + bool"
  depositsPaused_call :: "string \<Rightarrow> string + bool"
  activeVaultsList_call :: "string \<Rightarrow> string + string list"

text \<open>
  The state of a run: the lines written to standard output and to standard error by
  the statements of the script, oldest first, and the contract reads issued so far as
  pairs of target address and function name. A read is logged where the script sets out
  to make it, whether it then answers or raises. The traceback that the interpreter
  prints for an uncaught exception is not a line of the script: it is carried by the
  outcome of the run, below.
\<close>

record state =
  stdout :: "string list"
  stderr :: "string list"
  calls :: "(string \<times> string) list"

definition initial_state :: state where
  "initial_state = \<lparr>stdout = [], stderr = [], calls = []\<rparr>"

text \<open>Python's \<open>print(s)\<close> writes to \<open>sys.stdout\<close>: no call of the script passes \<open>file=\<close>.\<close>

definition py_print :: "string \<Rightarrow> state \<Rightarrow> state" where
  "py_print s st = st\<lparr>stdout := stdout st @ [s]\<rparr>"

definition contract_call :: "string \<Rightarrow> string \<Rightarrow> state \<Rightarrow> state" where
  "contract_call address fname st = st\<lparr>calls := calls st @ [(address, fname)]\<rparr>"

subsection \<open>The dictionary returned by the aggregator inspection (lines 74-79)\<close>

record agg_state =
  paused :: bool
  deposits_paused :: bool
  num_vaults :: int
  vaults :: "string list"

subsection \<open>Readiness evaluation (main, lines 152-170)\<close>

text \<open>
  \<open>if ind_paused:\<close> is taken for \<open>True\<close> only: \<open>None\<close> and \<open>False\<close>
  are both falsy. \<open>if agg_state:\<close> is taken for every dictionary the inspection
  returns, since it has four keys, and not for \<open>None\<close>.
\<close>

definition issue_individual_paused :: string where
  "issue_individual_paused = cross_mark @ '' IndividualPool is paused''"

definition issue_aggregator_paused :: string where
  "issue_aggregator_paused = cross_mark @ '' YieldAggregator is paused''"

definition issue_deposits_paused :: string where
  "issue_deposits_paused = cross_mark @ '' YieldAggregator deposits are paused''"

definition issue_no_vaults :: string where
  "issue_no_vaults = cross_mark @ '' No vaults configured in YieldAggregator''"

definition readiness :: "bool option \<Rightarrow> agg_state option \<Rightarrow> bool \<times> string list" where
  "readiness ind_paused agg =
    (let can_deposit = True;
         issues = [];
         (can_deposit, issues) =
           (if ind_paused = Some True
            then (False, issues @ [issue_individual_paused])
            else (can_deposit, issues))
     in case agg of
          None \<Rightarrow> (can_deposit, issues)
        | Some a \<Rightarrow>
           (let (can_deposit, issues) =
                  (if paused a
                   then (False, issues @ [issue_aggregator_paused])
                   else (can_deposit, issues));
                (can_deposit, issues) =
                  (if deposits_paused a
                   then (False, issues @ [issue_deposits_paused])
                   else (can_deposit, issues));
                (can_deposit, issues) =
                  (if num_vaults a = 0
                   then (False, issues @ [issue_no_vaults])
                   else (can_deposit, issues))
            in (can_deposit, issues)))"

subsection \<open>Formatting integers (\<open>str\<close> of an \<open>int\<close> inside an f-string)\<close>

definition digit_char :: "nat \<Rightarrow> char" where
  "digit_char d = ''0123456789'' ! d"

function str_nat :: "nat \<Rightarrow> string" where
  "str_nat n = (if n < 10 then [digit_char n] else str_nat (n div 10) @ [digit_char (n mod 10)])"
  by pat_completeness auto
termination
  by (relation "measure id") auto

declare str_nat.simps [simp del]

definition str_int :: "int \<Rightarrow> string" where
  "str_int i = (if i < 0 then CHR ''-'' # str_nat (nat (- i)) else str_nat (nat i))"

subsection \<open>\<open>check_contract_paused\<close> (lines 55-63)\<close>

text \<open>
  Building the contract object and calling \<open>paused()\<close> are inside one \<open>try\<close>:
  whichever raises, the handler prints the message under the contract's name and the
  function returns \<open>None\<close>.
\<close>

definition check_contract_paused ::
    "rpc \<Rightarrow> string \<Rightarrow> string \<Rightarrow> state \<Rightarrow> bool option \<times> state" where
  "check_contract_paused w3 contract_address contract_name st =
    (let st = contract_call contract_address ''paused'' st
     in case paused_call w3 contract_address of
          Inr is_paused \<Rightarrow> (Some is_paused, st)
        | Inl e \<Rightarrow>
            (None,
             py_print (cross_mark @ '' Error checking '' @ contract_name @ '': '' @ e) st))"

subsection \<open>\<open>check_yield_aggregator_state\<close> (lines 65-82)\<close>

definition aggregator_failed :: "string \<Rightarrow> state \<Rightarrow> agg_state option \<times> state" where
  \<comment> \<open>the \<open>except\<close> branch, lines 80-82\<close>
  "aggregator_failed e st =
    (None, py_print (cross_mark @ '' Error checking YieldAggregator: '' @ e) st)"

text \<open>
  The three reads run in order inside one \<open>try\<close>; the first that raises ends the
  inspection, and the reads after it are not issued.
\<close>

definition check_yield_aggregator_state :: "rpc \<Rightarrow> state \<Rightarrow> agg_state option \<times> state" where
  "check_yield_aggregator_state w3 st =
    (let st = contract_call YIELD_AGGREGATOR ''paused'' st
     in case paused_call w3 YIELD_AGGREGATOR of
          Inl e \<Rightarrow> aggregator_failed e st
        | Inr is_paused \<Rightarrow>
           (let st = contract_call YIELD_AGGREGATOR ''depositsPaused'' st
            in case depositsPaused_call w3 YIELD_AGGREGATOR of
                 Inl e \<Rightarrow> aggregator_failed e st
               | Inr deposits_paused' \<Rightarrow>
                  (let st = contract_call YIELD_AGGREGATOR ''activeVaultsList'' st
                   in case activeVaultsList_call w3 YIELD_AGGREGATOR of
                        Inl e \<Rightarrow> aggregator_failed e st
                      | Inr vaults' \<Rightarrow>
                          (Some \<lparr>paused = is_paused,
                                  deposits_paused = deposits_paused',
                                  num_vaults = int (length vaults'),
                                  vaults = vaults'\<rparr>, st))))"

subsection \<open>main (lines 84-184)\<close>

definition rule_line :: string where \<comment> \<open>\<open>"=" * 60\<close>\<close>
  "rule_line = replicate 60 (CHR ''='')"

definition dash_line :: string where \<comment> \<open>\<open>"-" * 60\<close>\<close>
  "dash_line = replicate 60 (CHR ''-'')"

text \<open>
  The status line of a pool (lines 112-116 for IndividualPool, 120-124 for
  CooperativePool: the same four lines under the two names).
\<close>

definition print_pool_status :: "string \<Rightarrow> bool option \<Rightarrow> state \<Rightarrow> state" where
  "print_pool_status name pool_paused st =
    (case pool_paused of
       None \<Rightarrow> py_print (question_mark @ '' '' @ name @ '': Status unknown'') st
     | Some p \<Rightarrow>
        (let status = (if p then red_circle @ '' PAUSED'' else green_circle @ '' ACTIVE'')
         in py_print (name @ '': '' @ status) st))"

text \<open>The aggregator's detail block (lines 131-144).\<close>

definition print_aggregator_details :: "agg_state option \<Rightarrow> state \<Rightarrow> state" where
  "print_aggregator_details agg st =
    (case agg of
       None \<Rightarrow> st
     | Some a \<Rightarrow>
        (let agg_status =
               (if paused a then red_circle @ '' PAUSED'' else green_circle @ '' ACTIVE'');
             deposits_status =
               (if deposits_paused a then red_circle @ '' PAUSED''
                else green_circle @ '' ENABLED'');
             st = py_print (''  Status: '' @ agg_status) st;
             st = py_print (''  Deposits: '' @ deposits_status) st;
             st = py_print (''  Configured Vaults: '' @ str_int (num_vaults a)) st
         in if num_vaults a = 0
            then py_print (''  '' @ warning_sign @ ''  WARNING: No vaults configured!'') st
            else fold (\<lambda>vault. py_print (''    - '' @ vault)) (vaults a)
                   (py_print ''  Vaults:'' st)))"

definition success_line :: string where
  "success_line = green_check @ '' All checks passed - Deposits should work!''"

text \<open>The verdict as printed (lines 172-182).\<close>

definition print_verdict :: "bool \<Rightarrow> string list \<Rightarrow> state \<Rightarrow> state" where
  "print_verdict can_deposit issues st =
    (if can_deposit then py_print success_line st
     else
       (let st = py_print (warning_sign @ ''  Issues found preventing deposits:'') st;
            st = fold (\<lambda>issue. py_print (''  '' @ issue)) issues st;
            st = py_print [] st;
            st = py_print ''To fix:'' st;
            st = py_print ''  1. Run: bash scripts/unpause-contracts.sh'' st;
            st = py_print ''  2. Ensure DEPLOYER_PRIVATE_KEY environment variable is set'' st;
            st = py_print
                   ''  3. Ensure MEZO_TESTNET_RPC environment variable is set (optional)'' st
        in st))"

text \<open>
  The part of \<open>main\<close> after the connection (lines 106-184): the three checks with
  their report, then the summary. It returns the verdict it computed (the locals
  \<open>can_deposit\<close> and \<open>issues\<close>) beside the state.
\<close>

definition main_checks :: "rpc \<Rightarrow> state \<Rightarrow> (bool \<times> string list) \<times> state" where
  "main_checks w3 st =
    (let st = py_print ''Contract Status:'' st;
         st = py_print dash_line st;
         (ind_paused, st) = check_contract_paused w3 INDIVIDUAL_POOL ''IndividualPool'' st;
         st = print_pool_status ''IndividualPool'' ind_paused st;
         (coop_paused, st) = check_contract_paused w3 COOPERATIVE_POOL ''CooperativePool'' st;
         st = print_pool_status ''CooperativePool'' coop_paused st;
         st = py_print [] st;
         st = py_print ''YieldAggregator Details:'' st;
         st = py_print dash_line st;
         (agg, st) = check_yield_aggregator_state w3 st;
         st = print_aggregator_details agg st;
         st = py_print [] st;
         st = py_print rule_line st;
         st = py_print ''Summary:'' st;
         st = py_print dash_line st;
         (can_deposit, issues) = readiness ind_paused agg;
         st = print_verdict can_deposit issues st;
         st = py_print rule_line st
     in ((can_deposit, issues), st))"

text \<open>
  How the process ends: \<open>main\<close> returns, \<open>sys.exit\<close> is called, or an exception
  leaves \<open>main\<close> uncaught (the interpreter then prints the traceback and exits with
  status 1). \<open>sys.exit(1)\<close> inside the \<open>try\<close> of lines 94-101 raises
  \<open>SystemExit\<close>, which \<open>except Exception\<close> does not catch.
\<close>

datatype outcome = Returned | SysExit int | Uncaught string

fun exit_status :: "outcome \<Rightarrow> int" where
  "exit_status Returned = 0"
| "exit_status (SysExit c) = c"
| "exit_status (Uncaught e) = 1"

text \<open>
  The block number of line 103 is read outside every \<open>try\<close>: when that query
  raises, the exception is not caught.
\<close>

definition main :: "rpc \<Rightarrow> outcome \<times> state" where
  "main w3 =
    (let st = initial_state;
         st = py_print rule_line st;
         st = py_print (magnifier @ '' Contract State Checker - KhipuVault'') st;
         st = py_print rule_line st;
         st = py_print (''Network: Mezo Testnet (Chain ID: '' @ str_int CHAIN_ID @ '')'') st;
         st = py_print (''RPC: '' @ MEZO_TESTNET_RPC) st;
         st = py_print [] st
     in case connection w3 of
          Not_Connected \<Rightarrow>
            (SysExit 1, py_print (cross_mark @ '' Failed to connect to Mezo Testnet RPC'') st)
        | Connection_Error e \<Rightarrow>
            (SysExit 1, py_print (cross_mark @ '' Connection error: '' @ e) st)
        | Connected \<Rightarrow>
           (case block_number w3 of
              Inl e \<Rightarrow> (Uncaught e, st)
            | Inr n \<Rightarrow>
               (let st = py_print (check_mark @ '' Connected to Mezo Testnet (Block: ''
                                     @ str_int n @ '')'') st;
                    st = py_print [] st
                in (Returned, snd (main_checks w3 st)))))"

subsection \<open>Notions used to state the properties\<close>

text \<open>
  The exception that leaves the \<open>try\<close> block of the aggregator inspection: the
  message of the first of the three reads that raises, if any does.
\<close>

definition first_aggregator_error :: "rpc \<Rightarrow> string option" where
  "first_aggregator_error w3 =
    (case paused_call w3 YIELD_AGGREGATOR of
       Inl e \<Rightarrow> Some e
     | Inr _ \<Rightarrow>
        (case depositsPaused_call w3 YIELD_AGGREGATOR of
           Inl e \<Rightarrow> Some e
         | Inr _ \<Rightarrow>
            (case activeVaultsList_call w3 YIELD_AGGREGATOR of
               Inl e \<Rightarrow> Some e
             | Inr _ \<Rightarrow> None)))"

subsection \<open>Sample endpoints\<close>

definition not_paused_everywhere :: "string \<Rightarrow> string + bool" where
  "not_paused_everywhere address = Inr False"

definition paused_everywhere :: "string \<Rightarrow> string + bool" where
  "paused_everywhere address = Inr True"

definition bool_read_times_out :: "string \<Rightarrow> string + bool" where
  "bool_read_times_out address = Inl ''timeout''"

definition list_read_times_out :: "string \<Rightarrow> string + string list" where
  "list_read_times_out address = Inl ''timeout''"

definition individual_pool_times_out :: "string \<Rightarrow> string + bool" where
  "individual_pool_times_out address =
    (if address = INDIVIDUAL_POOL then Inl ''timeout'' else Inr False)"

definition two_vaults :: "string \<Rightarrow> string + string list" where
  "two_vaults address =
    Inr [''0x00000000000000000000000000000000000000A1'',
         ''0x00000000000000000000000000000000000000B2'']"

definition no_vaults :: "string \<Rightarrow> string + string list" where
  "no_vaults address = Inr []"

definition rpc_healthy :: rpc where
  "rpc_healthy =
    \<lparr>connection = Connected, block_number = Inr 1234,
     paused_call = not_paused_everywhere,
     depositsPaused_call = not_paused_everywhere,
     activeVaultsList_call = two_vaults\<rparr>"

definition rpc_all_paused :: rpc where
  "rpc_all_paused =
    \<lparr>connection = Connected, block_number = Inr 1234,
     paused_call = paused_everywhere,
     depositsPaused_call = paused_everywhere,
     activeVaultsList_call = no_vaults\<rparr>"

definition rpc_unreachable :: rpc where
  "rpc_unreachable =
    \<lparr>connection = Not_Connected, block_number = Inl ''unreachable'',
     paused_call = bool_read_times_out,
     depositsPaused_call = bool_read_times_out,
     activeVaultsList_call = list_read_times_out\<rparr>"

definition rpc_block_query_fails :: rpc where
  "rpc_block_query_fails =
    \<lparr>connection = Connected, block_number = Inl ''timeout'',
     paused_call = not_paused_everywhere,
     depositsPaused_call = not_paused_everywhere,
     activeVaultsList_call = two_vaults\<rparr>"

definition rpc_individual_unknown :: rpc where
  "rpc_individual_unknown =
    \<lparr>connection = Connected, block_number = Inr 1234,
     paused_call = individual_pool_times_out,
     depositsPaused_call = not_paused_everywhere,
     activeVaultsList_call = two_vaults\<rparr>"

definition rpc_all_reads_fail :: rpc where
  "rpc_all_reads_fail =
    \<lparr>connection = Connected, block_number = Inr 1234,
     paused_call = bool_read_times_out,
     depositsPaused_call = bool_read_times_out,
     activeVaultsList_call = list_read_times_out\<rparr>"

definition rpc_vault_list_fails :: rpc where
  "rpc_vault_list_fails =
    \<lparr>connection = Connected, block_number = Inr 1234,
     paused_call = paused_everywhere,
     depositsPaused_call = paused_everywhere,
     activeVaultsList_call = list_read_times_out\<rparr>"

section \<open>What each step does to the state\<close>

lemma py_print_sel [simp]:
  "stdout (py_print s st) = stdout st @ [s]"
  "stderr (py_print s st) = stderr st"
  "calls (py_print s st) = calls st"
  by (simp_all add: py_print_def)

lemma contract_call_sel [simp]:
  "stdout (contract_call a f st) = stdout st"
  "stderr (contract_call a f st) = stderr st"
  "calls (contract_call a f st) = calls st @ [(a, f)]"
  by (simp_all add: contract_call_def)

lemma fold_print_sel [simp]:
  "stdout (fold (\<lambda>x. py_print (f x)) xs st) = stdout st @ map f xs"
  "stderr (fold (\<lambda>x. py_print (f x)) xs st) = stderr st"
  "calls (fold (\<lambda>x. py_print (f x)) xs st) = calls st"
  by (induction xs arbitrary: st) simp_all

lemma check_contract_paused_fst:
  "fst (check_contract_paused w3 a name st) =
     (case paused_call w3 a of Inl e \<Rightarrow> None | Inr p \<Rightarrow> Some p)"
  by (simp add: check_contract_paused_def Let_def split: sum.split)

lemma check_contract_paused_sel [simp]:
  "calls (snd (check_contract_paused w3 a name st)) = calls st @ [(a, ''paused'')]"
  "stderr (snd (check_contract_paused w3 a name st)) = stderr st"
  "stdout (snd (check_contract_paused w3 a name st)) = stdout st @
     (case paused_call w3 a of
        Inl e \<Rightarrow> [cross_mark @ '' Error checking '' @ name @ '': '' @ e]
      | Inr p \<Rightarrow> [])"
  by (simp_all add: check_contract_paused_def Let_def split: sum.split)

lemma aggregator_failed_sel [simp]:
  "fst (aggregator_failed e st) = None"
  "calls (snd (aggregator_failed e st)) = calls st"
  "stderr (snd (aggregator_failed e st)) = stderr st"
  "stdout (snd (aggregator_failed e st)) =
     stdout st @ [cross_mark @ '' Error checking YieldAggregator: '' @ e]"
  by (simp_all add: aggregator_failed_def)

lemma print_pool_status_sel [simp]:
  "calls (print_pool_status name p st) = calls st"
  "stderr (print_pool_status name p st) = stderr st"
  by (simp_all add: print_pool_status_def split: option.split)

lemma print_pool_status_stdout:
  "stdout (print_pool_status name p st) = stdout st @
    [case p of None \<Rightarrow> question_mark @ '' '' @ name @ '': Status unknown''
     | Some b \<Rightarrow>
         name @ '': '' @ (if b then red_circle @ '' PAUSED'' else green_circle @ '' ACTIVE'')]"
  by (simp add: print_pool_status_def split: option.split)

lemma print_aggregator_details_sel [simp]:
  "calls (print_aggregator_details agg st) = calls st"
  "stderr (print_aggregator_details agg st) = stderr st"
  by (simp_all add: print_aggregator_details_def Let_def split: option.split)

lemma print_verdict_sel [simp]:
  "calls (print_verdict c is st) = calls st"
  "stderr (print_verdict c is st) = stderr st"
  by (simp_all add: print_verdict_def Let_def)

lemma check_yield_aggregator_state_fst:
  "fst (check_yield_aggregator_state w3 st) =
    (case paused_call w3 YIELD_AGGREGATOR of
       Inl e \<Rightarrow> None
     | Inr p \<Rightarrow>
        (case depositsPaused_call w3 YIELD_AGGREGATOR of
           Inl e \<Rightarrow> None
         | Inr d \<Rightarrow>
            (case activeVaultsList_call w3 YIELD_AGGREGATOR of
               Inl e \<Rightarrow> None
             | Inr vs \<Rightarrow>
                 Some \<lparr>paused = p, deposits_paused = d,
                        num_vaults = int (length vs), vaults = vs\<rparr>)))"
  by (simp add: check_yield_aggregator_state_def Let_def split: sum.split)

lemma check_yield_aggregator_state_sel [simp]:
  "stderr (snd (check_yield_aggregator_state w3 st)) = stderr st"
  by (simp add: check_yield_aggregator_state_def Let_def split: sum.split)

lemma check_yield_aggregator_state_stdout:
  "stdout (snd (check_yield_aggregator_state w3 st)) = stdout st @
     (case first_aggregator_error w3 of
        None \<Rightarrow> []
      | Some e \<Rightarrow> [cross_mark @ '' Error checking YieldAggregator: '' @ e])"
  by (simp add: check_yield_aggregator_state_def first_aggregator_error_def Let_def
           split: sum.split)

lemma check_yield_aggregator_state_calls:
  "calls (snd (check_yield_aggregator_state w3 st)) =
     calls st @ calls (snd (check_yield_aggregator_state w3 initial_state))"
  by (simp add: check_yield_aggregator_state_def Let_def initial_state_def split: sum.split)

lemma main_checks_stderr: "stderr (snd (main_checks w3 st)) = stderr st"
  by (simp add: main_checks_def Let_def case_prod_unfold)

lemma main_checks_calls: "calls (snd (main_checks w3 st)) =
   calls st @ [(INDIVIDUAL_POOL, ''paused''), (COOPERATIVE_POOL, ''paused'')]
     @ calls (snd (check_yield_aggregator_state w3 initial_state))"
  by (simp add: main_checks_def Let_def case_prod_unfold
        check_yield_aggregator_state_calls [where st = "py_print a c" for a c])

lemma main_checks_fst:
  "fst (main_checks w3 st) =
     readiness (case paused_call w3 INDIVIDUAL_POOL of Inl e \<Rightarrow> None | Inr p \<Rightarrow> Some p)
               (fst (check_yield_aggregator_state w3 initial_state))"
  by (simp add: main_checks_def Let_def case_prod_unfold check_contract_paused_fst
        check_yield_aggregator_state_fst)

lemma readiness_issues:
  "set (snd (readiness ind agg)) \<subseteq>
     {issue_individual_paused, issue_aggregator_paused, issue_deposits_paused, issue_no_vaults}"
  by (cases agg) (auto simp: readiness_def)

lemma readiness_None:
  "readiness ind None =
     (ind \<noteq> Some True, if ind = Some True then [issue_individual_paused] else [])"
  by (simp add: readiness_def)

lemma addresses_differ [simp]:
  "INDIVIDUAL_POOL \<noteq> COOPERATIVE_POOL" "COOPERATIVE_POOL \<noteq> INDIVIDUAL_POOL"
  "YIELD_AGGREGATOR \<noteq> COOPERATIVE_POOL" "COOPERATIVE_POOL \<noteq> YIELD_AGGREGATOR"
  "YIELD_AGGREGATOR \<noteq> INDIVIDUAL_POOL" "INDIVIDUAL_POOL \<noteq> YIELD_AGGREGATOR"
  "MEZO_INTEGRATION \<noteq> INDIVIDUAL_POOL" "MEZO_INTEGRATION \<noteq> COOPERATIVE_POOL"
  "MEZO_INTEGRATION \<noteq> YIELD_AGGREGATOR"
  by (simp_all add: INDIVIDUAL_POOL_def COOPERATIVE_POOL_def YIELD_AGGREGATOR_def
        MEZO_INTEGRATION_def)

lemma issues_differ [simp]:
  "issue_aggregator_paused \<noteq> issue_individual_paused"
  "issue_deposits_paused \<noteq> issue_individual_paused"
  "issue_no_vaults \<noteq> issue_individual_paused"
  "issue_individual_paused \<noteq> issue_aggregator_paused"
  "issue_individual_paused \<noteq> issue_deposits_paused"
  "issue_individual_paused \<noteq> issue_no_vaults"
  by (simp_all add: issue_individual_paused_def issue_aggregator_paused_def
        issue_deposits_paused_def issue_no_vaults_def)

lemma print_aggregator_details_lines:
  "stdout (print_aggregator_details agg st) = stdout st @
    (case agg of
       None \<Rightarrow> []
     | Some a \<Rightarrow>
        [''  Status: '' @ (if paused a then red_circle @ '' PAUSED''
                           else green_circle @ '' ACTIVE''),
         ''  Deposits: '' @ (if deposits_paused a then red_circle @ '' PAUSED''
                             else green_circle @ '' ENABLED''),
         ''  Configured Vaults: '' @ str_int (num_vaults a)]
        @ (if num_vaults a = 0
           then [''  '' @ warning_sign @ ''  WARNING: No vaults configured!'']
           else ''  Vaults:'' # map (\<lambda>vault. ''    - '' @ vault) (vaults a)))"
  by (simp add: print_aggregator_details_def Let_def split: option.split)

lemma print_verdict_lines:
  "stdout (print_verdict can_deposit issues st) = stdout st @
    (if can_deposit then [success_line]
     else [warning_sign @ ''  Issues found preventing deposits:'']
          @ map (\<lambda>issue. ''  '' @ issue) issues
          @ [[], ''To fix:'',
             ''  1. Run: bash scripts/unpause-contracts.sh'',
             ''  2. Ensure DEPLOYER_PRIVATE_KEY environment variable is set'',
             ''  3. Ensure MEZO_TESTNET_RPC environment variable is set (optional)''])"
  by (simp add: print_verdict_def Let_def)

lemma main_checks_lines:
  "stdout (snd (main_checks w3 st)) = stdout st @
     [''Contract Status:'', dash_line]
     @ stdout (snd (check_contract_paused w3 INDIVIDUAL_POOL ''IndividualPool'' initial_state))
     @ stdout (print_pool_status ''IndividualPool''
                 (fst (check_contract_paused w3 INDIVIDUAL_POOL ''IndividualPool'' initial_state))
                 initial_state)
     @ stdout (snd (check_contract_paused w3 COOPERATIVE_POOL ''CooperativePool'' initial_state))
     @ stdout (print_pool_status ''CooperativePool''
                 (fst (check_contract_paused w3 COOPERATIVE_POOL ''CooperativePool'' initial_state))
                 initial_state)
     @ [[], ''YieldAggregator Details:'', dash_line]
     @ stdout (snd (check_yield_aggregator_state w3 initial_state))
     @ stdout (print_aggregator_details (fst (check_yield_aggregator_state w3 initial_state))
                 initial_state)
     @ [[], rule_line, ''Summary:'', dash_line]
     @ stdout (print_verdict (fst (fst (main_checks w3 initial_state)))
                 (snd (fst (main_checks w3 initial_state))) initial_state)
     @ [rule_line]"
  by (simp add: main_checks_def Let_def case_prod_unfold print_pool_status_stdout
        print_aggregator_details_lines print_verdict_lines check_yield_aggregator_state_stdout
        check_contract_paused_fst check_yield_aggregator_state_fst initial_state_def)

lemma initial_state_sel [simp]:
  "stdout initial_state = []" "stderr initial_state = []" "calls initial_state = []"
  by (simp_all add: initial_state_def)

lemma main_checks_frame:
  "stdout (snd (main_checks w3 st)) = stdout st @ stdout (snd (main_checks w3 initial_state))"
  unfolding main_checks_lines [of w3 st] main_checks_lines [of w3 initial_state] by simp

lemma main_connected:
  assumes "connection w3 = Connected" and "block_number w3 = Inr n"
  shows "fst (main w3) = Returned"
    and "stderr (snd (main w3)) = []"
    and "calls (snd (main w3)) =
           [(INDIVIDUAL_POOL, ''paused''), (COOPERATIVE_POOL, ''paused'')]
           @ calls (snd (check_yield_aggregator_state w3 initial_state))"
    and "stdout (snd (main w3)) =
           [rule_line, magnifier @ '' Contract State Checker - KhipuVault'', rule_line,
            ''Network: Mezo Testnet (Chain ID: '' @ str_int CHAIN_ID @ '')'',
            ''RPC: '' @ MEZO_TESTNET_RPC, [],
            check_mark @ '' Connected to Mezo Testnet (Block: '' @ str_int n @ '')'', []]
           @ stdout (snd (main_checks w3 initial_state))"
  using assms
  by (simp_all add: main_def Let_def main_checks_stderr main_checks_calls
        main_checks_frame [where st = "py_print a b" for a b])

lemma main_not_connected:
  assumes "connection w3 \<noteq> Connected"
  shows "fst (main w3) = SysExit 1" and "calls (snd (main w3)) = []"
    and "stderr (snd (main w3)) = []"
  using assms by (cases "connection w3"; simp add: main_def Let_def)+

lemma main_block_number_raises:
  assumes "connection w3 = Connected" and "block_number w3 = Inl e"
  shows "fst (main w3) = Uncaught e" and "calls (snd (main w3)) = []"
  using assms by (simp_all add: main_def Let_def)

lemma main_checks_contains:
  shows "paused_call w3 INDIVIDUAL_POOL = Inl e \<Longrightarrow>
           cross_mark @ '' Error checking IndividualPool: '' @ e
             \<in> set (stdout (snd (main_checks w3 st)))"
    and "paused_call w3 INDIVIDUAL_POOL = Inl e \<Longrightarrow>
           question_mark @ '' IndividualPool: Status unknown''
             \<in> set (stdout (snd (main_checks w3 st)))"
    and "paused_call w3 COOPERATIVE_POOL = Inl e \<Longrightarrow>
           cross_mark @ '' Error checking CooperativePool: '' @ e
             \<in> set (stdout (snd (main_checks w3 st)))"
    and "paused_call w3 COOPERATIVE_POOL = Inl e \<Longrightarrow>
           question_mark @ '' CooperativePool: Status unknown''
             \<in> set (stdout (snd (main_checks w3 st)))"
    and "first_aggregator_error w3 = Some e \<Longrightarrow>
           cross_mark @ '' Error checking YieldAggregator: '' @ e
             \<in> set (stdout (snd (main_checks w3 st)))"
    and "''Summary:'' \<in> set (stdout (snd (main_checks w3 st)))"
    and "last (stdout (snd (main_checks w3 st))) = rule_line"
    and "fst (fst (main_checks w3 st)) \<Longrightarrow>
           success_line \<in> set (stdout (snd (main_checks w3 st)))"
  unfolding main_checks_lines [of w3 st]
  by (simp_all add: check_contract_paused_fst print_pool_status_stdout
        check_yield_aggregator_state_stdout print_verdict_lines main_checks_fst)

lemma main_reaches_checks:
  assumes "calls (snd (main w3)) \<noteq> []"
  shows "connection w3 = Connected \<and> (\<exists>n. block_number w3 = Inr n)"
proof (cases "connection w3 = Connected")
  case True
  show ?thesis
  proof (cases "block_number w3")
    case (Inl e)
    with True assms show ?thesis by (simp add: main_block_number_raises)
  next
    case (Inr n)
    with True show ?thesis by simp
  qed
next
  case False
  with assms show ?thesis by (simp add: main_not_connected)
qed

lemma main_stdout_checks:
  assumes "connection w3 = Connected" and "block_number w3 = Inr n"
  shows "set (stdout (snd (main_checks w3 initial_state))) \<subseteq> set (stdout (snd (main w3)))"
    and "last (stdout (snd (main w3))) = rule_line"
proof -
  show "set (stdout (snd (main_checks w3 initial_state))) \<subseteq> set (stdout (snd (main w3)))"
    unfolding main_connected(4) [OF assms] by auto
  have "stdout (snd (main_checks w3 initial_state)) \<noteq> []"
    unfolding main_checks_lines [of w3 initial_state] by simp
  then show "last (stdout (snd (main w3))) = rule_line"
    unfolding main_connected(4) [OF assms]
    by (simp add: main_checks_contains(7))
qed

lemma aggregator_calls:
  "(YIELD_AGGREGATOR, ''paused'') \<in> set (calls (snd (check_yield_aggregator_state w3 st)))"
  "fst ` set (calls (snd (check_yield_aggregator_state w3 initial_state))) \<subseteq> {YIELD_AGGREGATOR}"
  by (auto simp add: check_yield_aggregator_state_def Let_def split: sum.split)

lemma aggregator_unavailable:
  "isl (paused_call w3 YIELD_AGGREGATOR) \<or> isl (depositsPaused_call w3 YIELD_AGGREGATOR)
     \<or> isl (activeVaultsList_call w3 YIELD_AGGREGATOR) \<Longrightarrow>
   fst (check_yield_aggregator_state w3 st) = None"
  by (auto simp add: check_yield_aggregator_state_fst isl_def split: sum.split)

section \<open>Properties of the readiness evaluation\<close>

text \<open>
  C1. With a boolean pause status of IndividualPool and an aggregator state whose vault
  count is not negative, the evaluation gives canDeposit exactly when IndividualPool is
  not paused, the aggregator is not paused, its deposits are not paused, and it has at
  least one vault.
\<close>

theorem can_deposit_iff:
  "0 \<le> n \<Longrightarrow>
   fst (readiness (Some individualPaused)
          (Some \<lparr>paused = aggregatorPaused, deposits_paused = aggregatorDepositsPaused,
                 num_vaults = n, vaults = vs\<rparr>))
   \<longleftrightarrow> (\<not> individualPaused \<and> \<not> aggregatorPaused \<and> \<not> aggregatorDepositsPaused \<and> 0 < n)"
  by (auto simp: readiness_def)

theorem can_deposit_iff_witness:
  "(0::int) \<le> 3 \<and>
   (fst (readiness (Some False)
          (Some \<lparr>paused = False, deposits_paused = False, num_vaults = 3,
                 vaults = [''0x01'', ''0x02'', ''0x03'']\<rparr>))
    \<longleftrightarrow> (\<not> False \<and> \<not> False \<and> \<not> False \<and> (0::int) < 3))"
  using can_deposit_iff [of 3 False False False "[''0x01'', ''0x02'', ''0x03'']"] by simp

text \<open>
  C10. Whatever the check results, canDeposit is true at the end of the evaluation
  exactly when the issues list is empty.
\<close>

theorem can_deposit_iff_no_issues:
  "fst (readiness ind_paused agg) \<longleftrightarrow> snd (readiness ind_paused agg) = []"
  by (cases agg) (auto simp: readiness_def)

section \<open>Properties of a run\<close>

text \<open>
  C2. Two runs that differ only in what CooperativePool's \<open>paused()\<close> read gives (a
  boolean or a failure) compute the same canDeposit and the same issues list, and no
  issue string mentions CooperativePool.
\<close>

theorem cooperative_pool_not_evaluated:
  "fst (main_checks (w3\<lparr>paused_call := (paused_call w3)(COOPERATIVE_POOL := r)\<rparr>) st)
     = fst (main_checks w3 st)
   \<and> (\<forall>issue \<in> set (snd (fst (main_checks w3 st))). \<not> sublist ''CooperativePool'' issue)"
proof
  show "fst (main_checks (w3\<lparr>paused_call := (paused_call w3)(COOPERATIVE_POOL := r)\<rparr>) st)
     = fst (main_checks w3 st)"
    by (simp add: main_checks_fst check_yield_aggregator_state_fst cong: sum.case_cong)
  show "\<forall>issue \<in> set (snd (fst (main_checks w3 st))). \<not> sublist ''CooperativePool'' issue"
  proof
    fix issue
    assume "issue \<in> set (snd (fst (main_checks w3 st)))"
    then have "issue \<in> {issue_individual_paused, issue_aggregator_paused,
                         issue_deposits_paused, issue_no_vaults}"
      using readiness_issues unfolding main_checks_fst by blast
    then consider "issue = issue_individual_paused" | "issue = issue_aggregator_paused"
      | "issue = issue_deposits_paused" | "issue = issue_no_vaults"
      by blast
    then show "\<not> sublist ''CooperativePool'' issue"
    proof cases
      case 1
      show ?thesis unfolding 1 by code_simp
    next
      case 2
      show ?thesis unfolding 2 by code_simp
    next
      case 3
      show ?thesis unfolding 3 by code_simp
    next
      case 4
      show ?thesis unfolding 4 by code_simp
    qed
  qed
qed

text \<open>
  The endpoint where everything is paused: flipping CooperativePool to active leaves the
  verdict, with its four issues, as it is.
\<close>

theorem cooperative_pool_not_evaluated_witness:
  "fst (main_checks
          (rpc_all_paused\<lparr>paused_call :=
             (paused_call rpc_all_paused)(COOPERATIVE_POOL := Inr False)\<rparr>) initial_state)
     = fst (main_checks rpc_all_paused initial_state)
   \<and> fst (main_checks rpc_all_paused initial_state)
       = (False, [issue_individual_paused, issue_aggregator_paused,
                  issue_deposits_paused, issue_no_vaults])
   \<and> \<not> sublist ''CooperativePool'' issue_individual_paused
   \<and> \<not> sublist ''CooperativePool'' issue_aggregator_paused
   \<and> \<not> sublist ''CooperativePool'' issue_deposits_paused
   \<and> \<not> sublist ''CooperativePool'' issue_no_vaults"
  using cooperative_pool_not_evaluated [of rpc_all_paused "Inr False" initial_state]
  by (simp add: main_checks_fst check_yield_aggregator_state_fst readiness_def
        rpc_all_paused_def paused_everywhere_def no_vaults_def)

text \<open>
  C3. If any of the three aggregator reads fails, the inspection returns \<open>None\<close>, no
  aggregator issue is in the issues list, and canDeposit is decided by IndividualPool's
  pause status alone.
\<close>

theorem aggregator_failure_all_or_nothing:
  "isl (paused_call w3 YIELD_AGGREGATOR) \<or> isl (depositsPaused_call w3 YIELD_AGGREGATOR)
     \<or> isl (activeVaultsList_call w3 YIELD_AGGREGATOR) \<Longrightarrow>
   fst (check_yield_aggregator_state w3 st) = None
   \<and> fst (fst (main_checks w3 st)) = (paused_call w3 INDIVIDUAL_POOL \<noteq> Inr True)
   \<and> snd (fst (main_checks w3 st))
       = (if paused_call w3 INDIVIDUAL_POOL = Inr True then [issue_individual_paused] else [])
   \<and> issue_aggregator_paused \<notin> set (snd (fst (main_checks w3 st)))
   \<and> issue_deposits_paused \<notin> set (snd (fst (main_checks w3 st)))
   \<and> issue_no_vaults \<notin> set (snd (fst (main_checks w3 st)))"
proof -
  assume failed: "isl (paused_call w3 YIELD_AGGREGATOR)
     \<or> isl (depositsPaused_call w3 YIELD_AGGREGATOR)
     \<or> isl (activeVaultsList_call w3 YIELD_AGGREGATOR)"
  have none: "fst (check_yield_aggregator_state w3 s) = None" for s
    using failed by (rule aggregator_unavailable)
  have verdict: "fst (main_checks w3 st) =
      (paused_call w3 INDIVIDUAL_POOL \<noteq> Inr True,
       if paused_call w3 INDIVIDUAL_POOL = Inr True then [issue_individual_paused] else [])"
    by (auto simp add: main_checks_fst none readiness_None split: sum.split)
  show ?thesis
    by (simp add: none verdict)
qed

text \<open>
  The aggregator answers \<open>paused() = True\<close> and \<open>depositsPaused() = True\<close>, then
  the vault list read fails: the two answers are dropped with the rest.
\<close>

theorem aggregator_failure_all_or_nothing_witness:
  "(isl (paused_call rpc_vault_list_fails YIELD_AGGREGATOR)
     \<or> isl (depositsPaused_call rpc_vault_list_fails YIELD_AGGREGATOR)
     \<or> isl (activeVaultsList_call rpc_vault_list_fails YIELD_AGGREGATOR))
   \<and> paused_call rpc_vault_list_fails YIELD_AGGREGATOR = Inr True
   \<and> fst (check_yield_aggregator_state rpc_vault_list_fails initial_state) = None
   \<and> fst (main_checks rpc_vault_list_fails initial_state) = (False, [issue_individual_paused])
   \<and> issue_aggregator_paused \<notin> set (snd (fst (main_checks rpc_vault_list_fails initial_state)))"
proof -
  have failed: "isl (paused_call rpc_vault_list_fails YIELD_AGGREGATOR)
     \<or> isl (depositsPaused_call rpc_vault_list_fails YIELD_AGGREGATOR)
     \<or> isl (activeVaultsList_call rpc_vault_list_fails YIELD_AGGREGATOR)"
    by (simp add: rpc_vault_list_fails_def list_read_times_out_def)
  have ind: "paused_call rpc_vault_list_fails a = Inr True" for a
    by (simp add: rpc_vault_list_fails_def paused_everywhere_def)
  show ?thesis
    using failed aggregator_failure_all_or_nothing [OF failed, of initial_state]
    by (simp add: ind prod_eq_iff)
qed

text \<open>
  C4, as stated, fails: the connection is established, the block number query of line
  103 raises outside every \<open>try\<close>, and the process ends with status 1.
\<close>

theorem exit_status_counterexample:
  "\<not> (exit_status (fst (main rpc_block_query_fails)) = 1
        \<longleftrightarrow> connection rpc_block_query_fails \<noteq> Connected)"
  by (simp add: main_block_number_raises(1) [of _ "''timeout''"] rpc_block_query_fails_def)

text \<open>
  C4, amended. If the initial RPC connection cannot be established, the process exits
  with status 1 before any contract read is attempted. In every run where the connection
  is established and the block number query answers, the exit status is 0, also when
  issues are found.
\<close>

theorem exit_status_by_connection:
  "(connection w3 \<noteq> Connected \<longrightarrow>
      exit_status (fst (main w3)) = 1 \<and> calls (snd (main w3)) = [])
   \<and> (connection w3 = Connected \<and> block_number w3 = Inr n \<longrightarrow>
      exit_status (fst (main w3)) = 0)"
  by (simp add: main_not_connected main_connected(1))

theorem exit_status_by_connection_witness:
  "connection rpc_unreachable \<noteq> Connected
   \<and> exit_status (fst (main rpc_unreachable)) = 1
   \<and> calls (snd (main rpc_unreachable)) = []
   \<and> connection rpc_all_paused = Connected
   \<and> block_number rpc_all_paused = Inr 1234
   \<and> exit_status (fst (main rpc_all_paused)) = 0"
  using exit_status_by_connection [of rpc_unreachable]
        exit_status_by_connection [of rpc_all_paused 1234]
  by (simp add: rpc_unreachable_def rpc_all_paused_def)

text \<open>
  C5, as stated, fails: IndividualPool's \<open>paused()\<close> read times out, and the error
  line is on standard output, not on standard error.
\<close>

theorem error_stream_counterexample:
  "paused_call rpc_individual_unknown INDIVIDUAL_POOL = Inl ''timeout''
   \<and> cross_mark @ '' Error checking IndividualPool: timeout''
        \<notin> set (stderr (snd (main rpc_individual_unknown)))
   \<and> cross_mark @ '' Error checking IndividualPool: timeout''
        \<in> set (stdout (snd (main rpc_individual_unknown)))"
proof -
  have conn: "connection rpc_individual_unknown = Connected"
    and blk: "block_number rpc_individual_unknown = Inr 1234"
    and ind: "paused_call rpc_individual_unknown INDIVIDUAL_POOL = Inl ''timeout''"
    by (simp_all add: rpc_individual_unknown_def individual_pool_times_out_def)
  have "cross_mark @ '' Error checking IndividualPool: '' @ ''timeout''
          \<in> set (stdout (snd (main rpc_individual_unknown)))"
    using main_checks_contains(1) [OF ind] main_stdout_checks(1) [OF conn blk] by blast
  then show ?thesis
    by (simp add: ind main_connected(2) [OF conn blk])
qed

text \<open>
  C5, amended. Whenever a contract read fails in a run (a pause check of either pool,
  or the first failing read of the aggregator inspection), the line made of the cross
  mark, \<open>Error checking\<close>, the contract's human-readable name and the underlying
  error message is written to standard output, where all the report text goes; the
  script writes nothing to standard error.
\<close>

theorem errors_on_stdout:
  "connection w3 = Connected \<Longrightarrow> block_number w3 = Inr n \<Longrightarrow>
   stderr (snd (main w3)) = []
   \<and> (paused_call w3 INDIVIDUAL_POOL = Inl e \<longrightarrow>
        cross_mark @ '' Error checking IndividualPool: '' @ e \<in> set (stdout (snd (main w3))))
   \<and> (paused_call w3 COOPERATIVE_POOL = Inl e \<longrightarrow>
        cross_mark @ '' Error checking CooperativePool: '' @ e \<in> set (stdout (snd (main w3))))
   \<and> (first_aggregator_error w3 = Some e \<longrightarrow>
        cross_mark @ '' Error checking YieldAggregator: '' @ e \<in> set (stdout (snd (main w3))))"
proof -
  assume conn: "connection w3 = Connected" and blk: "block_number w3 = Inr n"
  note sub = main_stdout_checks(1) [OF conn blk]
  have "stderr (snd (main w3)) = []"
    by (rule main_connected(2) [OF conn blk])
  moreover have "paused_call w3 INDIVIDUAL_POOL = Inl e \<longrightarrow>
        cross_mark @ '' Error checking IndividualPool: '' @ e \<in> set (stdout (snd (main w3)))"
    using main_checks_contains(1) [of w3 e initial_state] sub by blast
  moreover have "paused_call w3 COOPERATIVE_POOL = Inl e \<longrightarrow>
        cross_mark @ '' Error checking CooperativePool: '' @ e \<in> set (stdout (snd (main w3)))"
    using main_checks_contains(3) [of w3 e initial_state] sub by blast
  moreover have "first_aggregator_error w3 = Some e \<longrightarrow>
        cross_mark @ '' Error checking YieldAggregator: '' @ e \<in> set (stdout (snd (main w3)))"
    using main_checks_contains(5) [of w3 e initial_state] sub by blast
  ultimately show ?thesis by blast
qed

theorem errors_on_stdout_witness:
  "connection rpc_all_reads_fail = Connected
   \<and> block_number rpc_all_reads_fail = Inr 1234
   \<and> paused_call rpc_all_reads_fail INDIVIDUAL_POOL = Inl ''timeout''
   \<and> paused_call rpc_all_reads_fail COOPERATIVE_POOL = Inl ''timeout''
   \<and> first_aggregator_error rpc_all_reads_fail = Some ''timeout''
   \<and> stderr (snd (main rpc_all_reads_fail)) = []
   \<and> cross_mark @ '' Error checking IndividualPool: timeout''
        \<in> set (stdout (snd (main rpc_all_reads_fail)))
   \<and> cross_mark @ '' Error checking CooperativePool: timeout''
        \<in> set (stdout (snd (main rpc_all_reads_fail)))
   \<and> cross_mark @ '' Error checking YieldAggregator: timeout''
        \<in> set (stdout (snd (main rpc_all_reads_fail)))"
proof -
  have hyps: "connection rpc_all_reads_fail = Connected"
    "block_number rpc_all_reads_fail = Inr 1234"
    "paused_call rpc_all_reads_fail INDIVIDUAL_POOL = Inl ''timeout''"
    "paused_call rpc_all_reads_fail COOPERATIVE_POOL = Inl ''timeout''"
    "first_aggregator_error rpc_all_reads_fail = Some ''timeout''"
    by (simp_all add: rpc_all_reads_fail_def bool_read_times_out_def first_aggregator_error_def)
  show ?thesis
    using errors_on_stdout [OF hyps(1,2), of "''timeout''"] hyps by simp
qed

text \<open>
  C7. A failed \<open>paused()\<close> read of one pool is isolated: in a run where the read was
  issued and failed, the check returns \<open>None\<close> for that contract, and the run still
  issues the pause reads of both pools and the whole aggregator inspection, prints the
  summary down to its closing rule, and returns.
\<close>

theorem pool_failure_isolated:
  "pool \<in> {INDIVIDUAL_POOL, COOPERATIVE_POOL} \<Longrightarrow>
   (pool, ''paused'') \<in> set (calls (snd (main w3))) \<Longrightarrow>
   paused_call w3 pool = Inl e \<Longrightarrow>
     fst (check_contract_paused w3 pool name st) = None
   \<and> fst (main w3) = Returned
   \<and> calls (snd (main w3)) =
        [(INDIVIDUAL_POOL, ''paused''), (COOPERATIVE_POOL, ''paused'')]
        @ calls (snd (check_yield_aggregator_state w3 initial_state))
   \<and> (YIELD_AGGREGATOR, ''paused'') \<in> set (calls (snd (main w3)))
   \<and> ''Summary:'' \<in> set (stdout (snd (main w3)))
   \<and> last (stdout (snd (main w3))) = rule_line"
proof -
  assume issued: "(pool, ''paused'') \<in> set (calls (snd (main w3)))"
    and failed: "paused_call w3 pool = Inl e"
  from issued have "calls (snd (main w3)) \<noteq> []" by auto
  then obtain n where conn: "connection w3 = Connected" and blk: "block_number w3 = Inr n"
    using main_reaches_checks by blast
  have "fst (check_contract_paused w3 pool name st) = None"
    by (simp add: check_contract_paused_fst failed)
  moreover have "''Summary:'' \<in> set (stdout (snd (main w3)))"
    using main_checks_contains(6) [of w3 initial_state] main_stdout_checks(1) [OF conn blk]
    by blast
  moreover have "(YIELD_AGGREGATOR, ''paused'') \<in> set (calls (snd (main w3)))"
    using aggregator_calls(1) [of w3 initial_state] by (simp add: main_connected(3) [OF conn blk])
  ultimately show ?thesis
    using main_connected(1,3) [OF conn blk] main_stdout_checks(2) [OF conn blk] by simp
qed

theorem pool_failure_isolated_witness:
  "INDIVIDUAL_POOL \<in> {INDIVIDUAL_POOL, COOPERATIVE_POOL}
   \<and> (INDIVIDUAL_POOL, ''paused'') \<in> set (calls (snd (main rpc_individual_unknown)))
   \<and> paused_call rpc_individual_unknown INDIVIDUAL_POOL = Inl ''timeout''
   \<and> fst (check_contract_paused rpc_individual_unknown INDIVIDUAL_POOL ''IndividualPool''
            initial_state) = None
   \<and> fst (main rpc_individual_unknown) = Returned
   \<and> calls (snd (main rpc_individual_unknown)) =
        [(INDIVIDUAL_POOL, ''paused''), (COOPERATIVE_POOL, ''paused''),
         (YIELD_AGGREGATOR, ''paused''), (YIELD_AGGREGATOR, ''depositsPaused''),
         (YIELD_AGGREGATOR, ''activeVaultsList'')]
   \<and> ''Summary:'' \<in> set (stdout (snd (main rpc_individual_unknown)))
   \<and> last (stdout (snd (main rpc_individual_unknown))) = rule_line"
proof -
  have conn: "connection rpc_individual_unknown = Connected"
    and blk: "block_number rpc_individual_unknown = Inr 1234"
    and ind: "paused_call rpc_individual_unknown INDIVIDUAL_POOL = Inl ''timeout''"
    by (simp_all add: rpc_individual_unknown_def individual_pool_times_out_def)
  have agg: "calls (snd (check_yield_aggregator_state rpc_individual_unknown initial_state)) =
      [(YIELD_AGGREGATOR, ''paused''), (YIELD_AGGREGATOR, ''depositsPaused''),
       (YIELD_AGGREGATOR, ''activeVaultsList'')]"
    by (simp add: check_yield_aggregator_state_def Let_def rpc_individual_unknown_def
          individual_pool_times_out_def not_paused_everywhere_def two_vaults_def)
  have issued: "(INDIVIDUAL_POOL, ''paused'') \<in> set (calls (snd (main rpc_individual_unknown)))"
    by (simp add: main_connected(3) [OF conn blk])
  show ?thesis
    using pool_failure_isolated [OF _ issued ind, of "''IndividualPool''" initial_state] issued ind agg
    by simp
qed

text \<open>
  C8. In every run, no contract read targets the MezoIntegration address: every read
  goes to IndividualPool, CooperativePool or YieldAggregator.
\<close>

theorem mezo_integration_never_queried:
  "MEZO_INTEGRATION \<notin> fst ` set (calls (snd (main w3)))
   \<and> fst ` set (calls (snd (main w3))) \<subseteq> {INDIVIDUAL_POOL, COOPERATIVE_POOL, YIELD_AGGREGATOR}"
proof -
  have sub: "fst ` set (calls (snd (main w3)))
               \<subseteq> {INDIVIDUAL_POOL, COOPERATIVE_POOL, YIELD_AGGREGATOR}"
  proof (cases "calls (snd (main w3)) = []")
    case True
    then show ?thesis by simp
  next
    case False
    then obtain n where conn: "connection w3 = Connected" and blk: "block_number w3 = Inr n"
      using main_reaches_checks by blast
    show ?thesis
      using aggregator_calls(2) [of w3] by (auto simp add: main_connected(3) [OF conn blk])
  qed
  moreover have "MEZO_INTEGRATION \<notin> {INDIVIDUAL_POOL, COOPERATIVE_POOL, YIELD_AGGREGATOR}"
    by simp
  ultimately show ?thesis by blast
qed

section \<open>Unknown and paused status of IndividualPool\<close>

text \<open>
  C6, as stated, fails: the issue appended at line 157 starts with the cross mark and
  a space, so the issues list is not the bare text.
\<close>

theorem individual_issue_text_counterexample:
  "snd (readiness (Some True) None) \<noteq> [''IndividualPool is paused'']"
  by (simp add: readiness_def issue_individual_paused_def cross_mark_def)

text \<open>
  C6, amended. When IndividualPool's pause status is \<open>True\<close>, the evaluation sets
  canDeposit to false and adds exactly one issue, in first place: the cross mark
  (U+274C), a space, and \<open>IndividualPool is paused\<close>. With the aggregator
  unavailable, the issues list is that one string.
\<close>

theorem individual_paused_blocks:
  "fst (readiness (Some True) agg) = False
   \<and> snd (readiness (Some True) agg)
       = (cross_mark @ '' IndividualPool is paused'') # snd (readiness None agg)
   \<and> cross_mark @ '' IndividualPool is paused'' \<notin> set (snd (readiness None agg))
   \<and> readiness (Some True) None = (False, [cross_mark @ '' IndividualPool is paused''])"
  using issues_differ
  by (cases agg) (simp_all add: readiness_def issue_individual_paused_def)

text \<open>
  C9. An unknown pause status of IndividualPool (\<open>None\<close>) is evaluated exactly as
  \<open>False\<close>: no IndividualPool issue is added. So a run in which IndividualPool's
  read fails and the aggregator is active with at least one vault prints both the
  status-unknown line for IndividualPool and the line that all checks passed.
\<close>

theorem unknown_individual_counts_as_active:
  "readiness None agg = readiness (Some False) agg
   \<and> cross_mark @ '' IndividualPool is paused'' \<notin> set (snd (readiness None agg))
   \<and> (connection w3 = Connected \<and> block_number w3 = Inr n
        \<and> paused_call w3 INDIVIDUAL_POOL = Inl e
        \<and> paused_call w3 YIELD_AGGREGATOR = Inr False
        \<and> depositsPaused_call w3 YIELD_AGGREGATOR = Inr False
        \<and> activeVaultsList_call w3 YIELD_AGGREGATOR = Inr (v # vs)
      \<longrightarrow> fst (main_checks w3 st) = (True, [])
          \<and> question_mark @ '' IndividualPool: Status unknown'' \<in> set (stdout (snd (main w3)))
          \<and> green_check @ '' All checks passed - Deposits should work!''
               \<in> set (stdout (snd (main w3))))"
proof -
  have same: "readiness None agg = readiness (Some False) agg"
    by (simp add: readiness_def)
  have no_issue: "cross_mark @ '' IndividualPool is paused'' \<notin> set (snd (readiness None agg))"
    using issues_differ
    by (cases agg) (simp_all add: readiness_def issue_individual_paused_def)
  have run: "fst (main_checks w3 st) = (True, [])
          \<and> question_mark @ '' IndividualPool: Status unknown'' \<in> set (stdout (snd (main w3)))
          \<and> green_check @ '' All checks passed - Deposits should work!''
               \<in> set (stdout (snd (main w3)))"
    if conn: "connection w3 = Connected" and blk: "block_number w3 = Inr n"
      and ind: "paused_call w3 INDIVIDUAL_POOL = Inl e"
      and agg: "paused_call w3 YIELD_AGGREGATOR = Inr False"
        "depositsPaused_call w3 YIELD_AGGREGATOR = Inr False"
        "activeVaultsList_call w3 YIELD_AGGREGATOR = Inr (v # vs)"
  proof -
    have verdict: "fst (main_checks w3 s) = (True, [])" for s
      by (simp add: main_checks_fst check_yield_aggregator_state_fst ind agg readiness_def)
    have "success_line \<in> set (stdout (snd (main_checks w3 initial_state)))"
      by (rule main_checks_contains(8)) (simp add: verdict)
    then show ?thesis
      using main_checks_contains(2) [OF ind, of initial_state]
        main_stdout_checks(1) [OF conn blk] verdict
      by (auto simp add: success_line_def)
  qed
  from same no_issue run show ?thesis by blast
qed

theorem unknown_individual_counts_as_active_witness:
  "connection rpc_individual_unknown = Connected
   \<and> block_number rpc_individual_unknown = Inr 1234
   \<and> paused_call rpc_individual_unknown INDIVIDUAL_POOL = Inl ''timeout''
   \<and> paused_call rpc_individual_unknown YIELD_AGGREGATOR = Inr False
   \<and> depositsPaused_call rpc_individual_unknown YIELD_AGGREGATOR = Inr False
   \<and> activeVaultsList_call rpc_individual_unknown YIELD_AGGREGATOR =
        Inr [''0x00000000000000000000000000000000000000A1'',
             ''0x00000000000000000000000000000000000000B2'']
   \<and> fst (main_checks rpc_individual_unknown initial_state) = (True, [])
   \<and> question_mark @ '' IndividualPool: Status unknown''
        \<in> set (stdout (snd (main rpc_individual_unknown)))
   \<and> green_check @ '' All checks passed - Deposits should work!''
        \<in> set (stdout (snd (main rpc_individual_unknown)))"
proof -
  have hyps: "connection rpc_individual_unknown = Connected"
    "block_number rpc_individual_unknown = Inr 1234"
    "paused_call rpc_individual_unknown INDIVIDUAL_POOL = Inl ''timeout''"
    "paused_call rpc_individual_unknown YIELD_AGGREGATOR = Inr False"
    "depositsPaused_call rpc_individual_unknown YIELD_AGGREGATOR = Inr False"
    "activeVaultsList_call rpc_individual_unknown YIELD_AGGREGATOR =
        Inr [''0x00000000000000000000000000000000000000A1'',
             ''0x00000000000000000000000000000000000000B2'']"
    by (simp_all add: rpc_individual_unknown_def individual_pool_times_out_def
          not_paused_everywhere_def two_vaults_def)
  show ?thesis
    using unknown_individual_counts_as_active
            [of None rpc_individual_unknown 1234 "''timeout''"
                "''0x00000000000000000000000000000000000000A1''"
                "[''0x00000000000000000000000000000000000000B2'']" initial_state]
          hyps
    by simp
qed

end
